theory Spec2Isabelle
  imports Complex_Main "HOL-Library.AList"
begin

section \<open>Values\<close>

text \<open>
  Python strings are modelled as lists of \<^typ>\<open>char\<close>, one character per code point
  below 256. Python floats are modelled by \<open>pyfloat\<close>: the three special values are
  explicit, a finite float is the real number it stands for, and arithmetic on finite
  values is exact (no rounding to binary64, no overflow).
\<close>

datatype pyfloat = Finite real | PosInf | NegInf | NaN

datatype sample = Number pyfloat | Text string

datatype json =
    JInt int
  | JFloat pyfloat
  | JStr string
  | JBool bool
  | JList "json list"
  | JDict "(string \<times> json) list"

type_synonym dict = "(string \<times> json) list"

subsection \<open>Float arithmetic and comparison\<close>

fun fadd :: "pyfloat \<Rightarrow> pyfloat \<Rightarrow> pyfloat" where
  "fadd NaN _ = NaN"
| "fadd _ NaN = NaN"
| "fadd PosInf NegInf = NaN"
| "fadd NegInf PosInf = NaN"
| "fadd PosInf _ = PosInf"
| "fadd _ PosInf = PosInf"
| "fadd NegInf _ = NegInf"
| "fadd _ NegInf = NegInf"
| "fadd (Finite a) (Finite b) = Finite (a + b)"

fun fneg :: "pyfloat \<Rightarrow> pyfloat" where
  "fneg (Finite a) = Finite (- a)"
| "fneg PosInf = NegInf"
| "fneg NegInf = PosInf"
| "fneg NaN = NaN"

definition fsub :: "pyfloat \<Rightarrow> pyfloat \<Rightarrow> pyfloat" where
  "fsub a b = fadd a (fneg b)"

text \<open>\<open>x / n\<close> for a positive integer \<open>n\<close> (a count).\<close>

fun fdiv_count :: "pyfloat \<Rightarrow> nat \<Rightarrow> pyfloat" where
  "fdiv_count (Finite a) n = Finite (a / real n)"
| "fdiv_count x n = x"

text \<open>\<open>x ** 2\<close>.\<close>

fun fsquare :: "pyfloat \<Rightarrow> pyfloat" where
  "fsquare (Finite a) = Finite (a * a)"
| "fsquare PosInf = PosInf"
| "fsquare NegInf = PosInf"
| "fsquare NaN = NaN"

text \<open>
  \<open>x ** 0.5\<close>. The only caller passes a variance, which is never a negative number
  (lemma \<open>variance_not_negative\<close> below), so the value chosen for negative finite
  arguments is never used.
\<close>

fun fpow_half :: "pyfloat \<Rightarrow> pyfloat" where
  "fpow_half (Finite a) = Finite (sqrt a)"
| "fpow_half PosInf = PosInf"
| "fpow_half NegInf = PosInf"
| "fpow_half NaN = NaN"

fun flt :: "pyfloat \<Rightarrow> pyfloat \<Rightarrow> bool" where
  "flt NaN _ = False"
| "flt _ NaN = False"
| "flt (Finite a) (Finite b) = (a < b)"
| "flt NegInf NegInf = False"
| "flt NegInf _ = True"
| "flt _ NegInf = False"
| "flt PosInf _ = False"
| "flt _ PosInf = True"

fun fle :: "pyfloat \<Rightarrow> pyfloat \<Rightarrow> bool" where
  "fle NaN _ = False"
| "fle _ NaN = False"
| "fle (Finite a) (Finite b) = (a \<le> b)"
| "fle NegInf _ = True"
| "fle _ NegInf = False"
| "fle _ PosInf = True"
| "fle PosInf _ = False"

definition fge :: "pyfloat \<Rightarrow> pyfloat \<Rightarrow> bool" where
  "fge a b = fle b a"

definition fgt :: "pyfloat \<Rightarrow> pyfloat \<Rightarrow> bool" where
  "fgt a b = flt b a"

text \<open>\<open>sum(xs)\<close>: left to right, starting from 0.\<close>

definition fsum :: "pyfloat list \<Rightarrow> pyfloat" where
  "fsum xs = foldl fadd (Finite 0) xs"

text \<open>
  \<open>min(xs)\<close> and \<open>max(xs)\<close> on a non-empty list: the first element is kept until a
  later one compares strictly smaller (larger). Every caller has checked that the list is
  not empty; on the empty list Python raises, which the model marks with \<open>NaN\<close>.
\<close>

fun fmin :: "pyfloat list \<Rightarrow> pyfloat" where
  "fmin [] = NaN"
| "fmin (x # xs) = foldl (\<lambda>m y. if flt y m then y else m) x xs"

fun fmax :: "pyfloat list \<Rightarrow> pyfloat" where
  "fmax [] = NaN"
| "fmax (x # xs) = foldl (\<lambda>m y. if fgt y m then y else m) x xs"

subsection \<open>Rounding\<close>

text \<open>Python rounds to the nearest value and a tie to the even neighbour.\<close>

definition round_half_even :: "real \<Rightarrow> int" where
  "round_half_even x =
     (let f = \<lfloor>x\<rfloor>; d = x - of_int f
      in if d < 1/2 then f else if 1/2 < d then f + 1 else if even f then f else f + 1)"

text \<open>\<open>round(x, n)\<close> on a float: the special values are returned as they are.\<close>

fun round_n :: "nat \<Rightarrow> pyfloat \<Rightarrow> pyfloat" where
  "round_n n (Finite a) = Finite (of_int (round_half_even (a * 10 ^ n)) / 10 ^ n)"
| "round_n n x = x"

section \<open>Strings\<close>

definition isspace :: "char \<Rightarrow> bool" where
  "isspace c =
     (let n = (of_char c :: nat)
      in (9 \<le> n \<and> n \<le> 13) \<or> (28 \<le> n \<and> n \<le> 32) \<or> n = 133 \<or> n = 160)"

definition strip :: "string \<Rightarrow> string" where
  "strip s = rev (dropWhile isspace (rev (dropWhile isspace s)))"

text \<open>\<open>str.lower()\<close> on code points below 256.\<close>

definition lower_char :: "char \<Rightarrow> char" where
  "lower_char c =
     (let n = (of_char c :: nat)
      in if (65 \<le> n \<and> n \<le> 90) \<or> (192 \<le> n \<and> n \<le> 222 \<and> n \<noteq> 215)
         then char_of (n + 32) else c)"

definition lower :: "string \<Rightarrow> string" where
  "lower s = map lower_char s"

text \<open>\<open>needle in hay\<close> for strings.\<close>

fun starts_with :: "string \<Rightarrow> string \<Rightarrow> bool" where
  "starts_with [] hay = True"
| "starts_with (n # ns) [] = False"
| "starts_with (n # ns) (h # hs) = (n = h \<and> starts_with ns hs)"

fun contains :: "string \<Rightarrow> string \<Rightarrow> bool" where
  "contains needle [] = (needle = [])"
| "contains needle (h # hs) = (starts_with needle (h # hs) \<or> contains needle hs)"

text \<open>\<open>s.replace("\r\n", "\n")\<close>, \<open>s.replace("\r", "\n")\<close> and \<open>s.split("\n")\<close>.\<close>

fun replace_crlf :: "string \<Rightarrow> string" where
  "replace_crlf (a # b # cs) =
     (if a = CHR 0x0D \<and> b = CHR 0x0A then CHR 0x0A # replace_crlf cs
      else a # replace_crlf (b # cs))"
| "replace_crlf cs = cs"

definition replace_cr :: "string \<Rightarrow> string" where
  "replace_cr s = map (\<lambda>c. if c = CHR 0x0D then CHR 0x0A else c) s"

fun split_lines :: "string \<Rightarrow> string list" where
  "split_lines [] = [[]]"
| "split_lines (c # cs) =
     (if c = CHR 0x0A then [] # split_lines cs
      else (case split_lines cs of l # ls \<Rightarrow> (c # l) # ls | [] \<Rightarrow> [[c]]))"

section \<open>The builtin \<open>float(v)\<close> on a string\<close>

text \<open>
  The grammar of the Python language reference:
  \<^verbatim>\<open>
  digitpart   ::= digit (["_"] digit)*
  number      ::= [digitpart] "." digitpart | digitpart ["."]
  exponent    ::= ("e" | "E") [sign] digitpart
  floatnumber ::= number [exponent]
  floatvalue  ::= [sign] (floatnumber | "inf" | "infinity" | "nan")
  \<close>
  with the three words in any case. \<open>float\<close> raises \<open>ValueError\<close> on every other string,
  which is \<open>None\<close> here. The caller has stripped the string, so the surrounding
  whitespace that \<open>float\<close> would skip is already gone.
\<close>

definition is_digit :: "char \<Rightarrow> bool" where
  "is_digit c = (let n = (of_char c :: nat) in 48 \<le> n \<and> n \<le> 57)"

definition digit_val :: "char \<Rightarrow> nat" where
  "digit_val c = of_char c - 48"

text \<open>The part \<open>(["_"] digit)*\<close>: the digits read and the rest of the string.\<close>

fun digits_tail :: "string \<Rightarrow> nat list \<times> string" where
  "digits_tail (c # d # cs) =
     (if is_digit c then (case digits_tail (d # cs) of (ds, r) \<Rightarrow> (digit_val c # ds, r))
      else if c = CHR ''_'' \<and> is_digit d
        then (case digits_tail cs of (ds, r) \<Rightarrow> (digit_val d # ds, r))
      else ([], c # d # cs))"
| "digits_tail [c] = (if is_digit c then ([digit_val c], []) else ([], [c]))"
| "digits_tail [] = ([], [])"

definition digitpart :: "string \<Rightarrow> (nat list \<times> string) option" where
  "digitpart s =
     (case s of
        [] \<Rightarrow> None
      | c # cs \<Rightarrow>
          if is_digit c then (case digits_tail cs of (ds, r) \<Rightarrow> Some (digit_val c # ds, r))
          else None)"

definition digits_value :: "nat list \<Rightarrow> nat" where
  "digits_value ds = foldl (\<lambda>acc d. 10 * acc + d) 0 ds"

text \<open>\<open>number\<close>: the digits before the point, the digits after it, the rest.\<close>

definition number :: "string \<Rightarrow> (nat list \<times> nat list \<times> string) option" where
  "number s =
     (case digitpart s of
        Some (ip, r) \<Rightarrow>
          (case r of
             [] \<Rightarrow> Some (ip, [], [])
           | c # r' \<Rightarrow>
               if c = CHR ''.''
               then (case digitpart r' of
                       Some (fp, r'') \<Rightarrow> Some (ip, fp, r'')
                     | None \<Rightarrow> Some (ip, [], r'))
               else Some (ip, [], r))
      | None \<Rightarrow>
          (case s of
             [] \<Rightarrow> None
           | c # r' \<Rightarrow>
               if c = CHR ''.''
               then (case digitpart r' of
                       Some (fp, r'') \<Rightarrow> Some ([], fp, r'')
                     | None \<Rightarrow> None)
               else None))"

definition sign :: "string \<Rightarrow> bool \<times> string" where
  "sign s =
     (case s of
        [] \<Rightarrow> (False, [])
      | c # cs \<Rightarrow>
          if c = CHR ''-'' then (True, cs)
          else if c = CHR ''+'' then (False, cs)
          else (False, s))"

text \<open>\<open>[exponent]\<close> up to the end of the string.\<close>

definition exponent :: "string \<Rightarrow> int option" where
  "exponent s =
     (case s of
        [] \<Rightarrow> Some 0
      | c # cs \<Rightarrow>
          if c = CHR ''e'' \<or> c = CHR ''E''
          then (case sign cs of
                  (neg, r) \<Rightarrow>
                    (case digitpart r of
                       Some (ds, r') \<Rightarrow>
                         if r' = [] then Some (if neg then - int (digits_value ds)
                                               else int (digits_value ds))
                         else None
                     | None \<Rightarrow> None))
          else None)"

definition scale :: "real \<Rightarrow> int \<Rightarrow> real" where
  "scale x e = (if 0 \<le> e then x * 10 ^ nat e else x / 10 ^ nat (- e))"

definition floatnumber :: "string \<Rightarrow> real option" where
  "floatnumber s =
     (case number s of
        None \<Rightarrow> None
      | Some (ip, fp, r) \<Rightarrow>
          (case exponent r of
             None \<Rightarrow> None
           | Some e \<Rightarrow>
               Some (scale (real (digits_value ip)
                            + real (digits_value fp) / 10 ^ length fp) e)))"

definition ascii_lower :: "string \<Rightarrow> string" where
  "ascii_lower s =
     map (\<lambda>c. let n = (of_char c :: nat) in if 65 \<le> n \<and> n \<le> 90 then char_of (n + 32) else c) s"

definition float_of_str :: "string \<Rightarrow> pyfloat option" where
  "float_of_str v =
     (case sign v of
        (neg, body) \<Rightarrow>
          if ascii_lower body = ''inf'' \<or> ascii_lower body = ''infinity''
          then Some (if neg then NegInf else PosInf)
          else if ascii_lower body = ''nan'' then Some NaN
          else (case floatnumber body of
                  None \<Rightarrow> None
                | Some x \<Rightarrow> Some (Finite (if neg then - x else x))))"

section \<open>\<open>parse_values\<close>\<close>

text \<open>
  \<open>urllib.parse.unquote\<close> is library code and is a parameter, \<open>unquote\<close>. It returns a
  string without \<open>%\<close> unchanged.
\<close>

fun parse_loop :: "string list \<Rightarrow> sample list \<Rightarrow> sample list" where
  "parse_loop [] values = values"
| "parse_loop (l # ls) values =
     (let v = strip l
      in if v \<noteq> []
         then (case float_of_str v of
                 Some x \<Rightarrow> parse_loop ls (values @ [Number x])
               | None \<Rightarrow> parse_loop ls (values @ [Text v]))
         else parse_loop ls values)"

definition parse_values :: "(string \<Rightarrow> string) \<Rightarrow> string \<Rightarrow> sample list" where
  "parse_values unquote raw =
     (let decoded = replace_cr (replace_crlf (unquote raw))
      in parse_loop (split_lines decoded) [])"

section \<open>The statistics functions\<close>

text \<open>\<open>[v for v in values if isinstance(v, (int, float))]\<close>\<close>

fun numeric :: "sample list \<Rightarrow> pyfloat list" where
  "numeric [] = []"
| "numeric (Number x # vs) = x # numeric vs"
| "numeric (Text s # vs) = numeric vs"

text \<open>
  A dictionary of counters is an association list in insertion order;
  \<open>counters[k] += 1\<close> on a key that is present is \<open>incr k\<close>, \<open>counters[k]\<close> is
  \<open>counter k\<close>.
\<close>

definition incr :: "string \<Rightarrow> (string \<times> nat) list \<Rightarrow> (string \<times> nat) list" where
  "incr k counters = map (\<lambda>(k', n). if k' = k then (k', n + 1) else (k', n)) counters"

definition counter :: "string \<Rightarrow> (string \<times> nat) list \<Rightarrow> nat" where
  "counter k counters = (case map_of counters k of Some n \<Rightarrow> n | None \<Rightarrow> 0)"

definition counters_json :: "(string \<times> nat) list \<Rightarrow> json" where
  "counters_json counters = JDict (map (\<lambda>(k, n). (k, JInt (int n))) counters)"

subsection \<open>\<open>compute_hr_zones\<close>\<close>

definition hr_zone :: "pyfloat \<Rightarrow> string" where
  "hr_zone hr =
     (if flt hr (Finite 100) then ''rest''
      else if flt hr (Finite 120) then ''light''
      else if flt hr (Finite 140) then ''moderate''
      else if flt hr (Finite 160) then ''hard''
      else ''max'')"

definition hr_zones_init :: "(string \<times> nat) list" where
  "hr_zones_init = [(''rest'', 0), (''light'', 0), (''moderate'', 0), (''hard'', 0), (''max'', 0)]"

definition compute_hr_zones :: "sample list \<Rightarrow> json" where
  "compute_hr_zones values =
     (let nums = numeric values
      in if nums = [] then JDict []
         else
           let zones = foldl (\<lambda>zs hr. incr (hr_zone hr) zs) hr_zones_init nums;
               total = length nums
           in JDict
                [(''zones'', counters_json zones),
                 (''zone_pct'',
                    JDict (map (\<lambda>(k, v). (k, JInt (round_half_even (real v / real total * 100))))
                             zones)),
                 (''training_load'',
                    JInt (int (counter ''moderate'' zones + counter ''hard'' zones
                               + counter ''max'' zones))),
                 (''high_intensity'',
                    JInt (int (counter ''hard'' zones + counter ''max'' zones)))])"

subsection \<open>\<open>compute_sleep_stats\<close>\<close>

definition sleep_stage :: "string \<Rightarrow> string option" where
  "sleep_stage v =
     (if contains ''REM'' v then Some ''REM''
      else if contains ''Core'' v \<or> contains ''Light'' v then Some ''Core''
      else if contains ''Deep'' v then Some ''Deep''
      else if contains ''Awake'' v \<or> contains ''Wake'' v then Some ''Awake''
      else None)"

definition stages_init :: "(string \<times> nat) list" where
  "stages_init = [(''REM'', 0), (''Core'', 0), (''Deep'', 0), (''Awake'', 0)]"

definition sleep_step :: "(string \<times> nat) list \<Rightarrow> sample \<Rightarrow> (string \<times> nat) list" where
  "sleep_step stages v =
     (case v of
        Text s \<Rightarrow> (case sleep_stage s of Some k \<Rightarrow> incr k stages | None \<Rightarrow> stages)
      | Number x \<Rightarrow> stages)"

definition sample_json :: "sample \<Rightarrow> json" where
  "sample_json v = (case v of Number x \<Rightarrow> JFloat x | Text s \<Rightarrow> JStr s)"

definition sleep_quality :: "pyfloat \<Rightarrow> (string \<times> nat) list \<Rightarrow> string" where
  "sleep_quality fragmentation stages =
     (if flt fragmentation (Finite 20) \<and> 0 < counter ''REM'' stages \<and> 0 < counter ''Deep'' stages
      then ''good''
      else if flt fragmentation (Finite 35) then ''fair'' else ''poor'')"

definition compute_sleep_stats :: "sample list \<Rightarrow> json" where
  "compute_sleep_stats values =
     (let stages = foldl sleep_step stages_init values;
          total = sum_list (map snd stages)
      in if total = 0 then JDict [(''values'', JList (map sample_json values))]
         else
           let fragmentation =
                 round_n 1 (Finite (real (counter ''Awake'' stages) / real total * 100))
           in JDict
                [(''stages'', counters_json stages),
                 (''fragmentation_pct'', JFloat fragmentation),
                 (''quality'', JStr (sleep_quality fragmentation stages)),
                 (''has_rem'', JBool (0 < counter ''REM'' stages)),
                 (''has_deep'', JBool (0 < counter ''Deep'' stages))])"

subsection \<open>\<open>compute_blood_pressure_stats\<close>\<close>

definition elevated :: "pyfloat \<times> pyfloat \<Rightarrow> bool" where
  "elevated p = (case p of (s, d) \<Rightarrow> fge s (Finite 140) \<or> fge d (Finite 90))"

definition compute_blood_pressure_stats :: "sample list \<Rightarrow> sample list \<Rightarrow> json" where
  "compute_blood_pressure_stats systolic_values diastolic_values =
     (let systolic_nums = numeric systolic_values;
          diastolic_nums = numeric diastolic_values
      in if systolic_nums = [] \<or> diastolic_nums = [] then JDict [(''count'', JInt 0)]
         else
           let count = min (length systolic_nums) (length diastolic_nums);
               systolic_nums = take count systolic_nums;
               diastolic_nums = take count diastolic_nums;
               elevated_readings = length (filter elevated (zip systolic_nums diastolic_nums))
           in JDict
                [(''systolic_avg'', JFloat (round_n 1 (fdiv_count (fsum systolic_nums) count))),
                 (''systolic_min'', JFloat (round_n 1 (fmin systolic_nums))),
                 (''systolic_max'', JFloat (round_n 1 (fmax systolic_nums))),
                 (''diastolic_avg'', JFloat (round_n 1 (fdiv_count (fsum diastolic_nums) count))),
                 (''diastolic_min'', JFloat (round_n 1 (fmin diastolic_nums))),
                 (''diastolic_max'', JFloat (round_n 1 (fmax diastolic_nums))),
                 (''count'', JInt (int count)),
                 (''elevated_readings'', JInt (int elevated_readings))])"

subsection \<open>\<open>compute_blood_glucose_stats\<close>\<close>

definition variance :: "pyfloat list \<Rightarrow> pyfloat" where
  "variance nums =
     (let count = length nums;
          avg = fdiv_count (fsum nums) count
      in fdiv_count (fsum (map (\<lambda>x. fsquare (fsub x avg)) nums)) count)"

definition in_range :: "pyfloat \<Rightarrow> bool" where
  "in_range v = (fle (Finite 70) v \<and> fle v (Finite 180))"

definition compute_blood_glucose_stats :: "sample list \<Rightarrow> json" where
  "compute_blood_glucose_stats values =
     (let nums = numeric values
      in if nums = [] then JDict [(''count'', JInt 0)]
         else
           let count = length nums;
               avg = fdiv_count (fsum nums) count;
               std_dev = fpow_half (variance nums);
               in_range_pct =
                 round_n 1 (Finite (real (length (filter in_range nums)) / real count * 100))
           in JDict
                [(''avg'', JFloat (round_n 1 avg)),
                 (''min'', JFloat (round_n 1 (fmin nums))),
                 (''max'', JFloat (round_n 1 (fmax nums))),
                 (''std_dev'', JFloat (round_n 1 std_dev)),
                 (''count'', JInt (int count)),
                 (''in_range_pct'', JFloat in_range_pct)])"

subsection \<open>\<open>compute_stats\<close>\<close>

definition compute_stats :: "sample list \<Rightarrow> string \<Rightarrow> json" where
  "compute_stats values key =
     (let key_lower = strip (lower key)
      in if key_lower = ''sleep'' then compute_sleep_stats values
         else if key_lower = ''bloodglucose'' then compute_blood_glucose_stats values
         else
           let nums = numeric values
           in if nums = [] then JDict [(''count'', JInt (int (length values)))]
              else
                let result =
                      [(''avg'', JFloat (round_n 2 (fdiv_count (fsum nums) (length nums)))),
                       (''min'', JFloat (round_n 2 (fmin nums))),
                       (''max'', JFloat (round_n 2 (fmax nums))),
                       (''count'', JInt (int (length nums)))]
                in if key_lower = ''heartrate''
                   then JDict (AList.update ''hr_zones'' (compute_hr_zones (map Number nums)) result)
                   else JDict result)"

section \<open>The store and the clock\<close>

text \<open>
  The store maps a key \<open>health:YYYY-MM-DD\<close> to a text. A date is the number of its day
  (days since 1970-01-01), which stands for the text \<open>YYYY-MM-DD\<close> that \<open>strftime\<close>
  prints. The \<open>json\<close> library is not part of the repository, so a stored text is what
  \<open>json.loads\<close> makes of it: \<open>Decodes j\<close> is a text that decodes to \<open>j\<close> (and
  \<open>json.dumps j\<close> is such a text), \<open>Undecodable s\<close> is the text \<open>s\<close>, on which
  \<open>json.loads\<close> raises.
\<close>

datatype stored = Decodes json | Undecodable string

type_synonym date = int

type_synonym store = "date \<rightharpoonup> stored"

datatype error = JSONDecodeError | TypeError

definition truthy :: "stored \<Rightarrow> bool" where
  "truthy text = (case text of Decodes j \<Rightarrow> True | Undecodable s \<Rightarrow> s \<noteq> [])"

definition json_loads :: "stored \<Rightarrow> error + json" where
  "json_loads text = (case text of Decodes j \<Rightarrow> Inr j | Undecodable s \<Rightarrow> Inl JSONDecodeError)"

definition json_dumps :: "json \<Rightarrow> stored" where
  "json_dumps j = Decodes j"

text \<open>
  An instant is a number of seconds since 1970-01-01T00:00:00Z. A wall-clock time is
  the same count read in some timezone. \<open>get_pacific_now\<close> reads the clock at the fixed
  offset of -8 hours; \<open>datetime.now()\<close> without a timezone reads it in the local
  timezone of the server, whose offset in seconds is \<open>utcoffset\<close>.
\<close>

definition get_pacific_now :: "int \<Rightarrow> int" where
  "get_pacific_now now = now - 8 * 3600"

definition datetime_now :: "int \<Rightarrow> int \<Rightarrow> int" where
  "datetime_now utcoffset now = now + utcoffset"

definition strftime_date :: "int \<Rightarrow> date" where
  "strftime_date wall = wall div 86400"

definition check_auth :: "string \<Rightarrow> string option \<Rightarrow> bool" where
  "check_auth API_KEY authorization =
     (if API_KEY = [] then True
      else (case authorization of None \<Rightarrow> [] | Some a \<Rightarrow> a) = ''Bearer '' @ API_KEY)"

section \<open>Ingestion: \<open>do_POST\<close>\<close>

text \<open>
  \<open>form_data\<close> is what \<open>parse_qs\<close> returns: field names with their lists of values, in
  the order of the body.
\<close>

type_synonym form = "(string \<times> string list) list"

datatype response =
    Unauthorized
  | Ingested date "string list"
  | Records "(date \<times> json) list"

text \<open>The loop that looks for the two blood pressure fields: the last match is kept.\<close>

fun bp_keys :: "string list \<Rightarrow> string option \<times> string option \<Rightarrow> string option \<times> string option" where
  "bp_keys [] found = found"
| "bp_keys (key # keys) (bp_systolic_key, bp_diastolic_key) =
     (let key_lower = lower key
      in if contains ''bloodpressuresystolic'' key_lower
           then bp_keys keys (Some key, bp_diastolic_key)
         else if contains ''bloodpressurediastolic'' key_lower
           then bp_keys keys (bp_systolic_key, Some key)
         else bp_keys keys (bp_systolic_key, bp_diastolic_key))"

text \<open>\<open>values[0] if values else ""\<close> and \<open>form_data[key]\<close> for a key of the form.\<close>

definition first_value :: "string list \<Rightarrow> string" where
  "first_value values = (case values of [] \<Rightarrow> [] | v # _ \<Rightarrow> v)"

definition field :: "form \<Rightarrow> string \<Rightarrow> string list" where
  "field form_data key = (case map_of form_data key of Some values \<Rightarrow> values | None \<Rightarrow> [])"

fun process_metrics :: "(string \<Rightarrow> string) \<Rightarrow> form \<Rightarrow> dict \<Rightarrow> dict" where
  "process_metrics unquote [] health_data = health_data"
| "process_metrics unquote ((key, values) # rest) health_data =
     (let key_lower = lower key
      in if contains ''bloodpressuresystolic'' key_lower
            \<or> contains ''bloodpressurediastolic'' key_lower
         then process_metrics unquote rest health_data
         else process_metrics unquote rest
                (AList.update key
                   (compute_stats (parse_values unquote (first_value values)) key) health_data))"

text \<open>
  Lines 224 to 253 of \<open>do_POST\<close>: the prior record \<open>health_data\<close> becomes the merged one.
  \<open>updated\<close> is the ISO text of the second reading of the clock. A field name that
  matched one of the two blood pressure words is not empty, so the test
  \<open>bp_systolic_key and bp_diastolic_key\<close> is that both were found.
\<close>

definition merge :: "(string \<Rightarrow> string) \<Rightarrow> dict \<Rightarrow> form \<Rightarrow> string \<Rightarrow> dict" where
  "merge unquote health_data form_data updated =
     (let paired =
            (case bp_keys (map fst form_data) (None, None) of
               (Some bp_systolic_key, Some bp_diastolic_key) \<Rightarrow>
                 AList.update ''bloodpressure''
                   (compute_blood_pressure_stats
                      (parse_values unquote (first_value (field form_data bp_systolic_key)))
                      (parse_values unquote (first_value (field form_data bp_diastolic_key))))
                   health_data
             | _ \<Rightarrow> health_data)
      in AList.update ''_updated'' (JStr updated) (process_metrics unquote form_data paired))"

text \<open>
  \<open>existing = redis.get(redis_key); json.loads(existing) if existing else {}\<close>
\<close>

definition load_existing :: "stored option \<Rightarrow> error + json" where
  "load_existing existing =
     (case existing of
        None \<Rightarrow> Inr (JDict [])
      | Some text \<Rightarrow> if truthy text then json_loads text else Inr (JDict []))"

text \<open>
  The request is the \<open>Authorization\<close> header and the parsed form; the result is the response
  or the exception that ends the request, and the store afterwards. An item assignment
  on a decoded value that is not a dictionary raises \<open>TypeError\<close>.
\<close>

definition do_POST ::
  "string \<Rightarrow> (string \<Rightarrow> string) \<Rightarrow> int \<Rightarrow> string \<Rightarrow> string option \<Rightarrow> form \<Rightarrow> store
     \<Rightarrow> (error + response) \<times> store" where
  "do_POST API_KEY unquote now updated authorization form_data redis =
     (if \<not> check_auth API_KEY authorization then (Inr Unauthorized, redis)
      else
        let date_key = strftime_date (get_pacific_now now)
        in case load_existing (redis date_key) of
             Inl e \<Rightarrow> (Inl e, redis)
           | Inr (JDict health_data) \<Rightarrow>
               (Inr (Ingested date_key (map fst form_data)),
                redis(date_key \<mapsto> json_dumps (JDict (merge unquote health_data form_data updated))))
           | Inr _ \<Rightarrow> (Inl TypeError, redis))"

section \<open>Retrieval: \<open>do_GET\<close>\<close>

fun collect :: "date list \<Rightarrow> store \<Rightarrow> (date \<times> json) list \<Rightarrow> error + (date \<times> json) list" where
  "collect [] redis results = Inr results"
| "collect (date # dates) redis results =
     (case redis date of
        None \<Rightarrow> collect dates redis results
      | Some data \<Rightarrow>
          if truthy data
          then (case json_loads data of
                  Inl e \<Rightarrow> Inl e
                | Inr j \<Rightarrow> collect dates redis (AList.update date j results))
          else collect dates redis results)"

text \<open>
  \<open>days\<close> is the integer value of the query parameter \<open>days\<close>, \<open>None\<close> when the query has
  none. \<open>range(days)\<close> is empty for a number below 1.
\<close>

definition do_GET ::
  "string \<Rightarrow> int \<Rightarrow> int \<Rightarrow> string option \<Rightarrow> int option \<Rightarrow> store \<Rightarrow> error + response" where
  "do_GET API_KEY utcoffset now authorization days_param redis =
     (if \<not> check_auth API_KEY authorization then Inr Unauthorized
      else
        let days = (case days_param of None \<Rightarrow> 7 | Some d \<Rightarrow> d);
            dates = map (\<lambda>i. strftime_date (datetime_now utcoffset now - int i * 86400))
                      [0 ..< nat days]
        in case collect dates redis [] of
             Inl e \<Rightarrow> Inl e
           | Inr results \<Rightarrow> Inr (Records results))"

section \<open>Notions used to state the properties\<close>

text \<open>\<open>d[k]\<close> on a summary, and a path of keys into nested summaries.\<close>

definition item :: "json \<Rightarrow> string \<Rightarrow> json option" where
  "item j k = (case j of JDict d \<Rightarrow> map_of d k | _ \<Rightarrow> None)"

fun items :: "json \<Rightarrow> string list \<Rightarrow> json option" where
  "items j [] = Some j"
| "items j (k # ks) = (case item j k of Some j' \<Rightarrow> items j' ks | None \<Rightarrow> None)"








text \<open>The two blood pressure words in a field name, whatever the case of its letters.\<close>

definition has_systolic :: "string \<Rightarrow> bool" where
  "has_systolic key = contains ''bloodpressuresystolic'' (lower key)"

definition has_diastolic :: "string \<Rightarrow> bool" where
  "has_diastolic key = contains ''bloodpressurediastolic'' (lower key)"

text \<open>
  The pairs of metric key and summary that a submission computes, in the order in which
  the merge writes them, and the writing of such pairs into a record.
\<close>

definition computed_pairs :: "(string \<Rightarrow> string) \<Rightarrow> form \<Rightarrow> (string \<times> json) list" where
  "computed_pairs unquote form_data =
     (case bp_keys (map fst form_data) (None, None) of
        (Some bp_systolic_key, Some bp_diastolic_key) \<Rightarrow>
          [(''bloodpressure'',
            compute_blood_pressure_stats
              (parse_values unquote (first_value (field form_data bp_systolic_key)))
              (parse_values unquote (first_value (field form_data bp_diastolic_key))))]
      | _ \<Rightarrow> [])
     @ map (\<lambda>(key, values). (key, compute_stats (parse_values unquote (first_value values)) key))
         (filter (\<lambda>(key, values). \<not> (has_systolic key \<or> has_diastolic key)) form_data)"

definition write_pairs :: "(string \<times> json) list \<Rightarrow> dict \<Rightarrow> dict" where
  "write_pairs pairs health_data = foldl (\<lambda>h (k, v). AList.update k v h) health_data pairs"

text \<open>A float that is not a negative number and not minus infinity.\<close>

definition not_negative :: "pyfloat \<Rightarrow> bool" where
  "not_negative x = (case x of Finite a \<Rightarrow> 0 \<le> a | NegInf \<Rightarrow> False | PosInf \<Rightarrow> True | NaN \<Rightarrow> True)"

section \<open>The heart rate scenario\<close>

lemma heartrate_key: "strip (lower ''heartrate'') = ''heartrate''"
  by code_simp

lemma scenario_samples:
  "parse_values id ''65\<newline>72\<newline>145\<newline>'' =
     [Number (Finite 65), Number (Finite 72), Number (Finite 145)]"
  by code_simp

lemma scenario_zones:
  "compute_hr_zones [Number (Finite 65), Number (Finite 72), Number (Finite 145)] =
     JDict
       [(''zones'', JDict [(''rest'', JInt 2), (''light'', JInt 0), (''moderate'', JInt 0),
                           (''hard'', JInt 1), (''max'', JInt 0)]),
        (''zone_pct'', JDict [(''rest'', JInt 67), (''light'', JInt 0), (''moderate'', JInt 0),
                              (''hard'', JInt 33), (''max'', JInt 0)]),
        (''training_load'', JInt 1),
        (''high_intensity'', JInt 1)]"
  by code_simp

lemma scenario_generic:
  "round_n 2 (fdiv_count (fsum [Finite 65, Finite 72, Finite 145])
      (length [Finite 65, Finite 72, Finite 145])) = Finite 94"
  "round_n 2 (fmin [Finite 65, Finite 72, Finite 145]) = Finite 65"
  "round_n 2 (fmax [Finite 65, Finite 72, Finite 145]) = Finite 145"
  "int (length [Finite 65, Finite 72, Finite 145]) = 3"
  "map Number [Finite 65, Finite 72, Finite 145] = [Number (Finite 65), Number (Finite 72), Number (Finite 145)]"
  by code_simp+

lemma compute_stats_heartrate:
  assumes "numeric values = nums" and "nums \<noteq> []"
  shows "compute_stats values ''heartrate'' =
     JDict
       [(''avg'', JFloat (round_n 2 (fdiv_count (fsum nums) (length nums)))),
        (''min'', JFloat (round_n 2 (fmin nums))),
        (''max'', JFloat (round_n 2 (fmax nums))),
        (''count'', JInt (int (length nums))),
        (''hr_zones'', compute_hr_zones (map Number nums))]"
  using assms unfolding compute_stats_def heartrate_key by (simp add: Let_def)

lemma scenario_summary:
  "compute_stats (parse_values id ''65\<newline>72\<newline>145\<newline>'') ''heartrate'' =
     JDict
       [(''avg'', JFloat (Finite 94)), (''min'', JFloat (Finite 65)),
        (''max'', JFloat (Finite 145)), (''count'', JInt 3),
        (''hr_zones'',
           JDict
             [(''zones'', JDict [(''rest'', JInt 2), (''light'', JInt 0), (''moderate'', JInt 0),
                                 (''hard'', JInt 1), (''max'', JInt 0)]),
              (''zone_pct'', JDict [(''rest'', JInt 67), (''light'', JInt 0), (''moderate'', JInt 0),
                                    (''hard'', JInt 33), (''max'', JInt 0)]),
              (''training_load'', JInt 1),
              (''high_intensity'', JInt 1)])]"
proof -
  have "numeric [Number (Finite 65), Number (Finite 72), Number (Finite 145)] =
          [Finite 65, Finite 72, Finite 145]"
    by simp
  from compute_stats_heartrate [OF this] show ?thesis
    unfolding scenario_samples scenario_generic scenario_zones by simp
qed

text \<open>
  Claim C1, as amended. For the input of the three lines 65, 72 and 145 under the
  metric name \<open>heartrate\<close>, the summary has avg 94.0, min 65, max 145, count 3, and under
  \<open>hr_zones\<close> the zone counts rest 2, light 0, moderate 0, hard 1, max 0 (65 and 72 are
  both below 100 and fall in the rest zone), training_load 1 and high_intensity 1. The
  zones of a finite rate are rest below 100, light from 100 to below 120, moderate from
  120 to below 140, hard from 140 to below 160, and max from 160.
\<close>

theorem heartrate_scenario:
  "compute_stats (parse_values id ''65\<newline>72\<newline>145\<newline>'') ''heartrate'' =
     JDict
       [(''avg'', JFloat (Finite 94)), (''min'', JFloat (Finite 65)),
        (''max'', JFloat (Finite 145)), (''count'', JInt 3),
        (''hr_zones'',
           JDict
             [(''zones'', JDict [(''rest'', JInt 2), (''light'', JInt 0), (''moderate'', JInt 0),
                                 (''hard'', JInt 1), (''max'', JInt 0)]),
              (''zone_pct'', JDict [(''rest'', JInt 67), (''light'', JInt 0), (''moderate'', JInt 0),
                                    (''hard'', JInt 33), (''max'', JInt 0)]),
              (''training_load'', JInt 1),
              (''high_intensity'', JInt 1)])]
   \<and> (hr_zone (Finite x) = ''rest'') = (x < 100)
   \<and> (hr_zone (Finite x) = ''light'') = (100 \<le> x \<and> x < 120)
   \<and> (hr_zone (Finite x) = ''moderate'') = (120 \<le> x \<and> x < 140)
   \<and> (hr_zone (Finite x) = ''hard'') = (140 \<le> x \<and> x < 160)
   \<and> (hr_zone (Finite x) = ''max'') = (160 \<le> x)"
proof -
  have "(hr_zone (Finite x) = ''rest'') = (x < 100)"
   "(hr_zone (Finite x) = ''light'') = (100 \<le> x \<and> x < 120)"
   "(hr_zone (Finite x) = ''moderate'') = (120 \<le> x \<and> x < 140)"
   "(hr_zone (Finite x) = ''hard'') = (140 \<le> x \<and> x < 160)"
   "(hr_zone (Finite x) = ''max'') = (160 \<le> x)"
    by (auto simp: hr_zone_def)
  with scenario_summary show ?thesis by blast
qed

text \<open>
  Claim C1 as stated fails: it gives the rest zone a count of 1 and puts 72 in the light
  zone. The rest count of the scenario is 2, and 72 is in the rest zone.
\<close>

theorem heartrate_scenario_rest_count:
  "items (compute_stats (parse_values id ''65\<newline>72\<newline>145\<newline>'') ''heartrate'')
      [''hr_zones'', ''zones'', ''rest''] = Some (JInt 2)
   \<and> hr_zone (Finite 72) = ''rest''"
  unfolding scenario_summary by (simp add: item_def hr_zone_def)

section \<open>The value parser\<close>
















section \<open>Paired blood pressure analysis\<close>

lemma zip_positions:
  "zip xs ys = map (\<lambda>i. (xs ! i, ys ! i)) [0 ..< min (length xs) (length ys)]"
  by (rule nth_equalityI) simp_all

lemma count_pairs:
  "length (filter P (zip xs ys)) =
   length (filter (\<lambda>i. P (xs ! i, ys ! i)) [0 ..< min (length xs) (length ys)])"
proof -
  have "filter P (zip xs ys) =
        map (\<lambda>i. (xs ! i, ys ! i))
          (filter (\<lambda>i. P (xs ! i, ys ! i)) [0 ..< min (length xs) (length ys)])"
    by (subst zip_positions) (simp add: filter_map comp_def)
  then show ?thesis by simp
qed

lemma zip_take_min:
  "zip (take (min (length xs) (length ys)) xs) (take (min (length xs) (length ys)) ys) = zip xs ys"
  by (simp add: take_zip [symmetric])

lemma numeric_map_Number: "numeric (map Number xs) = xs"
  by (induction xs) simp_all

text \<open>
  Claim C5. If either side has no numeric sample the result is exactly \<open>{count: 0}\<close>.
  Otherwise \<open>count\<close> is the smaller of the two numbers of numeric samples,
  \<open>elevated_readings\<close> is the number of positions below \<open>count\<close> whose systolic value is
  at least 140 or whose diastolic value is at least 90, it is at most \<open>count\<close>, and the
  readings beyond \<open>count\<close> play no part: the two sequences cut to \<open>count\<close> give the same
  result.
\<close>

theorem blood_pressure_pairs:
  "((numeric systolic_values = [] \<or> numeric diastolic_values = []) \<longrightarrow>
      compute_blood_pressure_stats systolic_values diastolic_values = JDict [(''count'', JInt 0)])
   \<and> (numeric systolic_values \<noteq> [] \<and> numeric diastolic_values \<noteq> [] \<longrightarrow>
        (let s = numeric systolic_values; d = numeric diastolic_values;
             count = min (length s) (length d);
             elevated_readings =
               length (filter (\<lambda>i. fge (s ! i) (Finite 140) \<or> fge (d ! i) (Finite 90)) [0 ..< count]);
             result = compute_blood_pressure_stats systolic_values diastolic_values
         in item result ''count'' = Some (JInt (int count))
            \<and> item result ''elevated_readings'' = Some (JInt (int elevated_readings))
            \<and> elevated_readings \<le> count
            \<and> compute_blood_pressure_stats
                  (map Number (take count s)) (map Number (take count d)) = result))"
proof (intro conjI impI)
  assume "numeric systolic_values = [] \<or> numeric diastolic_values = []"
  then show "compute_blood_pressure_stats systolic_values diastolic_values = JDict [(''count'', JInt 0)]"
    by (auto simp: compute_blood_pressure_stats_def)
next
  assume ne: "numeric systolic_values \<noteq> [] \<and> numeric diastolic_values \<noteq> []"
  define s where "s = numeric systolic_values"
  define d where "d = numeric diastolic_values"
  define n where "n = min (length s) (length d)"
  have n_pos: "0 < n" using ne by (simp add: n_def s_def d_def)
  have el: "length (filter elevated (zip (take n s) (take n d))) =
            length (filter (\<lambda>i. fge (s ! i) (Finite 140) \<or> fge (d ! i) (Finite 90)) [0 ..< n])"
    unfolding n_def zip_take_min by (simp add: count_pairs elevated_def)
  have le: "length (filter (\<lambda>i. fge (s ! i) (Finite 140) \<or> fge (d ! i) (Finite 90)) [0 ..< n]) \<le> n"
    using length_filter_le [of _ "[0 ..< n]"] by simp
  have tk: "take n s \<noteq> []" "take n d \<noteq> []" "min (length (take n s)) (length (take n d)) = n"
    using n_pos ne by (auto simp: n_def s_def d_def)
  have res: "compute_blood_pressure_stats systolic_values diastolic_values =
      JDict
        [(''systolic_avg'', JFloat (round_n 1 (fdiv_count (fsum (take n s)) n))),
         (''systolic_min'', JFloat (round_n 1 (fmin (take n s)))),
         (''systolic_max'', JFloat (round_n 1 (fmax (take n s)))),
         (''diastolic_avg'', JFloat (round_n 1 (fdiv_count (fsum (take n d)) n))),
         (''diastolic_min'', JFloat (round_n 1 (fmin (take n d)))),
         (''diastolic_max'', JFloat (round_n 1 (fmax (take n d)))),
         (''count'', JInt (int n)),
         (''elevated_readings'', JInt (int (length (filter elevated (zip (take n s) (take n d))))))]"
    using ne
    by (simp add: compute_blood_pressure_stats_def Let_def
          s_def [symmetric] d_def [symmetric] n_def [symmetric])
  have same: "compute_blood_pressure_stats (map Number (take n s)) (map Number (take n d)) =
        compute_blood_pressure_stats systolic_values diastolic_values"
    unfolding res using tk
    by (simp add: compute_blood_pressure_stats_def numeric_map_Number Let_def)
  have "item (compute_blood_pressure_stats systolic_values diastolic_values) ''count''
          = Some (JInt (int n))"
    and "item (compute_blood_pressure_stats systolic_values diastolic_values) ''elevated_readings''
          = Some (JInt (int (length (filter (\<lambda>i. fge (s ! i) (Finite 140) \<or> fge (d ! i) (Finite 90))
                                      [0 ..< n]))))"
    unfolding res by (simp_all add: item_def el)
  with le same
  show "let s = numeric systolic_values; d = numeric diastolic_values;
             count = min (length s) (length d);
             elevated_readings =
               length (filter (\<lambda>i. fge (s ! i) (Finite 140) \<or> fge (d ! i) (Finite 90)) [0 ..< count]);
             result = compute_blood_pressure_stats systolic_values diastolic_values
         in item result ''count'' = Some (JInt (int count))
            \<and> item result ''elevated_readings'' = Some (JInt (int elevated_readings))
            \<and> elevated_readings \<le> count
            \<and> compute_blood_pressure_stats
                  (map Number (take count s)) (map Number (take count d)) = result"
    unfolding Let_def s_def [symmetric] d_def [symmetric] n_def [symmetric]
    by simp
qed

lemma pairs_witness_systolic: "parse_values id ''150\<newline>120\<newline>118\<newline>'' = [Number (Finite 150), Number (Finite 120), Number (Finite 118)]" by code_simp
lemma pairs_witness_diastolic: "parse_values id ''80\<newline>95\<newline>'' = [Number (Finite 80), Number (Finite 95)]" by code_simp

theorem blood_pressure_pairs_witness:
  "item (compute_blood_pressure_stats (parse_values id ''150\<newline>120\<newline>118\<newline>'') (parse_values id ''80\<newline>95\<newline>'')) ''count'' = Some (JInt 2)
  \<and> item (compute_blood_pressure_stats (parse_values id ''150\<newline>120\<newline>118\<newline>'') (parse_values id ''80\<newline>95\<newline>'')) ''elevated_readings'' = Some (JInt 2)
  \<and> compute_blood_pressure_stats [Text ''n/a''] (parse_values id ''80\<newline>95\<newline>'') = JDict [(''count'', JInt 0)]"
proof -
  have upt: "[0 ..< 2] = [0, Suc 0]" by (simp add: upt_rec)
  show ?thesis
    using blood_pressure_pairs [of "parse_values id ''150\<newline>120\<newline>118\<newline>''" "parse_values id ''80\<newline>95\<newline>''"]
      blood_pressure_pairs [of "[Text ''n/a'']" "parse_values id ''80\<newline>95\<newline>''"]
    unfolding pairs_witness_systolic pairs_witness_diastolic by (simp add: Let_def fge_def upt)
qed

section \<open>Properties of rounding\<close>




lemma round_half_even_int [simp]: "round_half_even (of_int k) = k"
  by (simp add: round_half_even_def)


section \<open>Sleep stage analysis\<close>












section \<open>Generic numeric summary\<close>

lemma numeric_map_Text: "numeric (map Text ts) = []"
  by (induction ts) simp_all

text \<open>
  Claim C8. Outside the sleep and the glucose analysis, a sequence with no numeric sample
  is summarised by the single field \<open>count\<close>, the number of all samples of the input; \<open>k\<close>
  text samples give \<open>{count: k}\<close>.
\<close>

theorem count_of_all_samples:
  "(strip (lower key) \<noteq> ''sleep'' \<and> strip (lower key) \<noteq> ''bloodglucose'' \<longrightarrow>
      (numeric values = [] \<longrightarrow>
         compute_stats values key = JDict [(''count'', JInt (int (length values)))])
      \<and> compute_stats (map Text ts) key = JDict [(''count'', JInt (int (length ts)))])"
  by (simp add: compute_stats_def Let_def numeric_map_Text)

lemma steps_key: "strip (lower ''Steps'') = ''steps''"
  by code_simp

theorem count_of_all_samples_witness:
  "compute_stats [Text ''n/a'', Text ''none''] ''Steps'' = JDict [(''count'', JInt 2)]
   \<and> compute_stats (map Text [''a'', ''b'', ''c'']) ''Steps'' = JDict [(''count'', JInt 3)]"
  using count_of_all_samples [of "''Steps''" "[Text ''n/a'', Text ''none'']" "[''a'', ''b'', ''c'']"]
  unfolding steps_key by simp

section \<open>The merge of a submission into the daily record\<close>

lemma update_swap_present:
  assumes "k \<in> fst ` set l \<or> k' \<in> fst ` set l" and "k \<noteq> k'"
  shows "AList.update k v (AList.update k' v' l) = AList.update k' v' (AList.update k v l)"
  using assms by (induction l) auto

lemma write_pairs_Cons:
  "write_pairs ((k, v) # ps) h = write_pairs ps (AList.update k v h)"
  by (simp add: write_pairs_def)

lemma write_pairs_snoc:
  "write_pairs (ps @ [(k, v)]) h = AList.update k v (write_pairs ps h)"
  by (simp add: write_pairs_def)

lemma write_pairs_append:
  "write_pairs (ps @ qs) h = write_pairs qs (write_pairs ps h)"
  by (simp add: write_pairs_def)

lemma write_pairs_keys: "fst ` set (write_pairs ps h) = fst ` set ps \<union> fst ` set h"
proof (induction ps arbitrary: h)
  case Nil
  then show ?case by (simp add: write_pairs_def)
next
  case (Cons p ps)
  obtain k v where p: "p = (k, v)" by (cases p)
  show ?case unfolding p write_pairs_Cons Cons.IH by (auto simp: dom_update)
qed

lemma write_pairs_absorbs:
  assumes "fst ` set ps \<subseteq> fst ` set l"
  shows "AList.update k v (write_pairs ps (AList.update k v' l)) = AList.update k v (write_pairs ps l)"
  using assms
proof (induction ps arbitrary: l)
  case Nil
  then show ?case by (simp add: write_pairs_def)
next
  case (Cons p ps)
  obtain a b where p: "p = (a, b)" by (cases p)
  show ?case
  proof (cases "a = k")
    case True
    then show ?thesis unfolding p write_pairs_Cons by simp
  next
    case False
    have a: "a \<in> fst ` set l" using Cons.prems p by simp
    have sw: "AList.update a b (AList.update k v' l) = AList.update k v' (AList.update a b l)"
      using update_swap_present [of a l k b v'] a False by simp
    have "fst ` set ps \<subseteq> fst ` set (AList.update a b l)"
      using Cons.prems by (auto simp: dom_update)
    from Cons.IH [OF this] show ?thesis
      unfolding p write_pairs_Cons sw .
  qed
qed

lemma write_pairs_twice: "write_pairs ps (write_pairs ps h) = write_pairs ps h"
proof (induction ps rule: rev_induct)
  case Nil
  then show ?case by (simp add: write_pairs_def)
next
  case (snoc p ps)
  obtain k v where p: "p = (k, v)" by (cases p)
  have "fst ` set ps \<subseteq> fst ` set (write_pairs ps h)"
    by (simp add: write_pairs_keys)
  from write_pairs_absorbs [OF this, of k v v]
  show ?case unfolding p write_pairs_snoc snoc.IH .
qed

lemma process_metrics_pairs:
  "process_metrics unquote form_data h =
     write_pairs
       (map (\<lambda>(key, values). (key, compute_stats (parse_values unquote (first_value values)) key))
          (filter (\<lambda>(key, values). \<not> (has_systolic key \<or> has_diastolic key)) form_data)) h"
proof (induction form_data arbitrary: h)
  case Nil
  then show ?case by (simp add: write_pairs_def)
next
  case (Cons p form_data)
  obtain key "values" where p: "p = (key, values)" by (cases p)
  show ?case
    unfolding p using Cons.IH
    by (simp add: Let_def has_systolic_def has_diastolic_def write_pairs_Cons)
qed

lemma merge_pairs:
  "merge unquote h form_data updated =
     AList.update ''_updated'' (JStr updated) (write_pairs (computed_pairs unquote form_data) h)"
  unfolding merge_def computed_pairs_def Let_def process_metrics_pairs write_pairs_append
  by (auto split: prod.splits option.splits simp: write_pairs_def)

text \<open>
  Claim C9. Merging the same submission twice in a row, the second time into the result of
  the first, gives the result of the first merge with the update timestamp set anew:
  apart from the field \<open>_updated\<close> the two records are equal.
\<close>

theorem merge_twice:
  "merge unquote (merge unquote h form_data updated) form_data updated' =
     AList.update ''_updated'' (JStr updated') (merge unquote h form_data updated)
   \<and> AList.delete ''_updated'' (merge unquote (merge unquote h form_data updated) form_data updated')
       = AList.delete ''_updated'' (merge unquote h form_data updated)"
proof -
  have "merge unquote (merge unquote h form_data updated) form_data updated' =
     AList.update ''_updated'' (JStr updated') (merge unquote h form_data updated)"
  proof -
  let ?l = "write_pairs (computed_pairs unquote form_data) h"
  have "fst ` set (computed_pairs unquote form_data) \<subseteq> fst ` set ?l"
    by (simp add: write_pairs_keys)
  from write_pairs_absorbs [OF this, of "''_updated''" "JStr updated'" "JStr updated"]
    show ?thesis
      unfolding merge_pairs write_pairs_twice by simp
  qed
  then show ?thesis
    by (simp add: delete_update_same)
qed

section \<open>A blood pressure field without its partner\<close>

lemma bp_keys_no_diastolic:
  "\<forall>k \<in> set keys. \<not> has_diastolic k \<Longrightarrow> snd (bp_keys keys (s, d)) = d"
  by (induction keys arbitrary: s d) (auto simp: Let_def has_diastolic_def)

lemma bp_keys_no_systolic:
  "\<forall>k \<in> set keys. \<not> has_systolic k \<Longrightarrow> fst (bp_keys keys (s, d)) = s"
  by (induction keys arbitrary: s d) (auto simp: Let_def has_systolic_def)

lemma map_of_write_pairs:
  "k \<notin> fst ` set ps \<Longrightarrow> map_of (write_pairs ps h) k = map_of h k"
proof (induction ps arbitrary: h)
  case Nil
  then show ?case by (simp add: write_pairs_def)
next
  case (Cons p ps)
  obtain a b where p: "p = (a, b)" by (cases p)
  from Cons show ?case
    unfolding p write_pairs_Cons by (simp add: update_conv')
qed

lemma reserved_keys:
  "\<not> has_systolic ''bloodpressure''" "\<not> has_diastolic ''bloodpressure''"
  "\<not> has_systolic ''_updated''" "\<not> has_diastolic ''_updated''"
  by code_simp+

lemma lone_computed_pairs:
  assumes "(\<forall>k \<in> fst ` set form_data. \<not> has_diastolic k)
           \<or> (\<forall>k \<in> fst ` set form_data. \<not> has_systolic k)"
  shows "computed_pairs unquote form_data =
     map (\<lambda>(key, values). (key, compute_stats (parse_values unquote (first_value values)) key))
       (filter (\<lambda>(key, values). \<not> (has_systolic key \<or> has_diastolic key)) form_data)"
proof -
  obtain s d where sd: "bp_keys (map fst form_data) (None, None) = (s, d)"
    by (cases "bp_keys (map fst form_data) (None, None)")
  from assms have "s = None \<or> d = None"
  proof
    assume "\<forall>k \<in> fst ` set form_data. \<not> has_diastolic k"
    then have "snd (bp_keys (map fst form_data) (None, None)) = None"
      by (intro bp_keys_no_diastolic) simp
    with sd show ?thesis by simp
  next
    assume "\<forall>k \<in> fst ` set form_data. \<not> has_systolic k"
    then have "fst (bp_keys (map fst form_data) (None, None)) = None"
      by (intro bp_keys_no_systolic) simp
    with sd show ?thesis by simp
  qed
  then show ?thesis
    unfolding computed_pairs_def sd by (auto split: option.splits)
qed

text \<open>
  Claim C10, as amended. When a submission has a field whose name contains
  \<open>bloodpressuresystolic\<close> and none whose name contains \<open>bloodpressurediastolic\<close>, or the
  other way round, the data of that field is discarded: the merged record is the one
  of the submission without its blood pressure fields, the value under every name that
  contains one of the two words is the one of the prior record, and so is the value under
  \<open>bloodpressure\<close>, provided the submission has no field of its own named
  \<open>bloodpressure\<close>.
\<close>

theorem lone_blood_pressure_field:
  "((\<exists>k \<in> fst ` set form_data. has_systolic k) \<and> (\<forall>k \<in> fst ` set form_data. \<not> has_diastolic k))
   \<or> ((\<exists>k \<in> fst ` set form_data. has_diastolic k) \<and> (\<forall>k \<in> fst ` set form_data. \<not> has_systolic k))
   \<longrightarrow>
     (\<forall>k. has_systolic k \<or> has_diastolic k \<longrightarrow>
            map_of (merge unquote h form_data updated) k = map_of h k)
     \<and> (''bloodpressure'' \<notin> fst ` set form_data \<longrightarrow>
            map_of (merge unquote h form_data updated) ''bloodpressure'' = map_of h ''bloodpressure'')
     \<and> merge unquote h form_data updated =
         merge unquote h
           (filter (\<lambda>(key, values). \<not> (has_systolic key \<or> has_diastolic key)) form_data) updated"
proof
  let ?plain = "filter (\<lambda>(key, values). \<not> (has_systolic key \<or> has_diastolic key)) form_data"
  let ?ps = "map (\<lambda>(key, values). (key, compute_stats (parse_values unquote (first_value values)) key))
               ?plain"
  assume "((\<exists>k \<in> fst ` set form_data. has_systolic k) \<and> (\<forall>k \<in> fst ` set form_data. \<not> has_diastolic k))
   \<or> ((\<exists>k \<in> fst ` set form_data. has_diastolic k) \<and> (\<forall>k \<in> fst ` set form_data. \<not> has_systolic k))"
  then have lone: "(\<forall>k \<in> fst ` set form_data. \<not> has_diastolic k)
           \<or> (\<forall>k \<in> fst ` set form_data. \<not> has_systolic k)"
    by blast
  have cp: "computed_pairs unquote form_data = ?ps"
    by (rule lone_computed_pairs [OF lone])
  have keys: "fst ` set ?ps = {k \<in> fst ` set form_data. \<not> (has_systolic k \<or> has_diastolic k)}"
    by force
  have m: "merge unquote h form_data updated =
        AList.update ''_updated'' (JStr updated) (write_pairs ?ps h)"
    unfolding merge_pairs cp ..
  have frame: "map_of (merge unquote h form_data updated) k = map_of h k"
    if "k \<noteq> ''_updated''" and "k \<notin> fst ` set ?ps" for k
    unfolding m using that by (simp add: update_conv' map_of_write_pairs)
  have 1: "map_of (merge unquote h form_data updated) k = map_of h k"
    if "has_systolic k \<or> has_diastolic k" for k
  proof (rule frame)
    show "k \<noteq> ''_updated''" using that reserved_keys by auto
    show "k \<notin> fst ` set ?ps" unfolding keys using that by simp
  qed
  have 2: "map_of (merge unquote h form_data updated) ''bloodpressure'' = map_of h ''bloodpressure''"
    if "''bloodpressure'' \<notin> fst ` set form_data"
  proof (rule frame)
    show "''bloodpressure'' \<noteq> ''_updated''" by simp
    show "''bloodpressure'' \<notin> fst ` set ?ps" unfolding keys using that by simp
  qed
  have "\<forall>k \<in> fst ` set ?plain. \<not> has_diastolic k" by auto
  then have "computed_pairs unquote ?plain =
      map (\<lambda>(key, values). (key, compute_stats (parse_values unquote (first_value values)) key))
        (filter (\<lambda>(key, values). \<not> (has_systolic key \<or> has_diastolic key)) ?plain)"
    by (intro lone_computed_pairs) blast
  also have "\<dots> = ?ps" by simp
  finally have 3: "merge unquote h form_data updated = merge unquote h ?plain updated"
    unfolding merge_pairs cp by simp
  from 1 2 3 show
    "(\<forall>k. has_systolic k \<or> has_diastolic k \<longrightarrow>
            map_of (merge unquote h form_data updated) k = map_of h k)
     \<and> (''bloodpressure'' \<notin> fst ` set form_data \<longrightarrow>
            map_of (merge unquote h form_data updated) ''bloodpressure'' = map_of h ''bloodpressure'')
     \<and> merge unquote h form_data updated = merge unquote h ?plain updated"
    by blast
qed

lemma compute_stats_generic:
  assumes "strip (lower key) = key_lower"
    and "key_lower \<noteq> ''sleep''" "key_lower \<noteq> ''bloodglucose''" "key_lower \<noteq> ''heartrate''"
    and "numeric values = nums" "nums \<noteq> []"
  shows "compute_stats values key =
     JDict
       [(''avg'', JFloat (round_n 2 (fdiv_count (fsum nums) (length nums)))),
        (''min'', JFloat (round_n 2 (fmin nums))),
        (''max'', JFloat (round_n 2 (fmax nums))),
        (''count'', JInt (int (length nums)))]"
  using assms unfolding compute_stats_def by (simp add: Let_def)

lemma compute_stats_no_numbers:
  assumes "strip (lower key) = key_lower"
    and "key_lower \<noteq> ''sleep''" "key_lower \<noteq> ''bloodglucose''"
    and "numeric values = []"
  shows "compute_stats values key = JDict [(''count'', JInt (int (length values)))]"
  using assms unfolding compute_stats_def by (simp add: Let_def)

lemma example_keys:
  "has_systolic ''BloodPressureSystolic''" "\<not> has_diastolic ''BloodPressureSystolic''"
  "\<not> has_systolic ''Steps''" "\<not> has_diastolic ''Steps''"
  "strip (lower ''Steps'') = ''steps''"
  "strip (lower ''bloodpressure'') = ''bloodpressure''"
  by code_simp+

lemma example_values:
  "parse_values id (first_value [''n/a'']) = [Text ''n/a'']"
  "parse_values id (first_value [''118'']) = [Number (Finite 118)]"
  "round_n 2 (fdiv_count (fsum [Finite 118]) (length [Finite 118])) = Finite 118"
  "round_n 2 (fmin [Finite 118]) = Finite 118"
  "round_n 2 (fmax [Finite 118]) = Finite 118"
  by code_simp+

lemma example_stats:
  "compute_stats [Text ''n/a''] ''Steps'' = JDict [(''count'', JInt 1)]"
  "compute_stats [Number (Finite 118)] ''bloodpressure'' =
     JDict [(''avg'', JFloat (Finite 118)), (''min'', JFloat (Finite 118)),
            (''max'', JFloat (Finite 118)), (''count'', JInt 1)]"
proof -
  show "compute_stats [Text ''n/a''] ''Steps'' = JDict [(''count'', JInt 1)]"
    using compute_stats_no_numbers [OF example_keys(5), of "[Text ''n/a'']"] by simp
  have "numeric [Number (Finite 118)] = [Finite 118]" by simp
  from compute_stats_generic [OF example_keys(6) _ _ _ this]
  show "compute_stats [Number (Finite 118)] ''bloodpressure'' =
     JDict [(''avg'', JFloat (Finite 118)), (''min'', JFloat (Finite 118)),
            (''max'', JFloat (Finite 118)), (''count'', JInt 1)]"
    unfolding example_values by simp
qed

lemma lone_example_record:
  "merge id [(''bloodpressure'', JDict [(''count'', JInt 0)])]
     [(''BloodPressureSystolic'', [''118'']), (''Steps'', [''n/a''])] ''t'' =
   [(''bloodpressure'', JDict [(''count'', JInt 0)]),
    (''Steps'', JDict [(''count'', JInt 1)]),
    (''_updated'', JStr ''t'')]"
proof -
  have "computed_pairs id [(''BloodPressureSystolic'', [''118'']), (''Steps'', [''n/a''])] =
      [(''Steps'', JDict [(''count'', JInt 1)])]"
    by (subst lone_computed_pairs)
       (simp_all add: example_keys example_values example_stats)
  then show ?thesis
    unfolding merge_pairs by (simp add: write_pairs_def)
qed

theorem lone_blood_pressure_field_witness:
  "has_systolic ''BloodPressureSystolic''
   \<and> map_of (merge id [(''bloodpressure'', JDict [(''count'', JInt 0)])]
               [(''BloodPressureSystolic'', [''118'']), (''Steps'', [''n/a''])] ''t'')
        ''bloodpressure'' = Some (JDict [(''count'', JInt 0)])
   \<and> map_of (merge id [(''bloodpressure'', JDict [(''count'', JInt 0)])]
               [(''BloodPressureSystolic'', [''118'']), (''Steps'', [''n/a''])] ''t'')
        ''BloodPressureSystolic'' = None
   \<and> merge id [(''bloodpressure'', JDict [(''count'', JInt 0)])]
        [(''BloodPressureSystolic'', [''118'']), (''Steps'', [''n/a''])] ''t'' =
      merge id [(''bloodpressure'', JDict [(''count'', JInt 0)])] [(''Steps'', [''n/a''])] ''t''"
proof -
  let ?fd = "[(''BloodPressureSystolic'', [''118'']), (''Steps'', [''n/a''])]"
  let ?h = "[(''bloodpressure'', JDict [(''count'', JInt 0)])]"
  have "((\<exists>k \<in> fst ` set ?fd. has_systolic k) \<and> (\<forall>k \<in> fst ` set ?fd. \<not> has_diastolic k))
      \<or> ((\<exists>k \<in> fst ` set ?fd. has_diastolic k) \<and> (\<forall>k \<in> fst ` set ?fd. \<not> has_systolic k))"
    by (simp add: example_keys)
  note t = lone_blood_pressure_field [of ?fd id ?h "''t''", THEN mp, OF this]
  from t have "map_of (merge id ?h ?fd ''t'') ''BloodPressureSystolic''
      = map_of ?h ''BloodPressureSystolic''"
    using example_keys(1) by blast
  then have a: "map_of (merge id ?h ?fd ''t'') ''BloodPressureSystolic'' = None"
    by simp
  have "''bloodpressure'' \<notin> fst ` set ?fd" by simp
  with t have "map_of (merge id ?h ?fd ''t'') ''bloodpressure'' = map_of ?h ''bloodpressure''"
    by blast
  then have b: "map_of (merge id ?h ?fd ''t'') ''bloodpressure'' = Some (JDict [(''count'', JInt 0)])"
    by simp
  have "filter (\<lambda>(key, values). \<not> (has_systolic key \<or> has_diastolic key)) ?fd
      = [(''Steps'', [''n/a''])]"
    by (simp add: example_keys)
  with t have c: "merge id ?h ?fd ''t'' = merge id ?h [(''Steps'', [''n/a''])] ''t''"
    by metis
  from a b c example_keys(1) show ?thesis by blast
qed

text \<open>
  Claim C10 as stated fails: a submission with a lone systolic field and a field of its
  own named \<open>bloodpressure\<close> writes the generic summary of the latter under the key
  \<open>bloodpressure\<close>, which the prior record did not have.
\<close>

theorem lone_field_with_own_bloodpressure:
  "has_systolic ''BloodPressureSystolic''
   \<and> \<not> has_diastolic ''BloodPressureSystolic'' \<and> \<not> has_diastolic ''bloodpressure''
   \<and> merge id [] [(''BloodPressureSystolic'', [''n/a'']), (''bloodpressure'', [''118''])] ''t'' =
       [(''bloodpressure'',
           JDict [(''avg'', JFloat (Finite 118)), (''min'', JFloat (Finite 118)),
                  (''max'', JFloat (Finite 118)), (''count'', JInt 1)]),
        (''_updated'', JStr ''t'')]"
proof -
  have "computed_pairs id [(''BloodPressureSystolic'', [''n/a'']), (''bloodpressure'', [''118''])] =
      [(''bloodpressure'',
           JDict [(''avg'', JFloat (Finite 118)), (''min'', JFloat (Finite 118)),
                  (''max'', JFloat (Finite 118)), (''count'', JInt 1)])]"
    by (subst lone_computed_pairs)
       (simp_all add: example_keys reserved_keys example_values example_stats)
  then show ?thesis
    unfolding merge_pairs by (simp add: write_pairs_def example_keys reserved_keys)
qed

theorem merge_twice_witness:
  "merge id
     (merge id [(''bloodpressure'', JDict [(''count'', JInt 0)])]
        [(''BloodPressureSystolic'', [''118'']), (''Steps'', [''n/a''])] ''t'')
     [(''BloodPressureSystolic'', [''118'']), (''Steps'', [''n/a''])] ''u'' =
   [(''bloodpressure'', JDict [(''count'', JInt 0)]),
    (''Steps'', JDict [(''count'', JInt 1)]),
    (''_updated'', JStr ''u'')]"
  using merge_twice [of id "[(''bloodpressure'', JDict [(''count'', JInt 0)])]"
      "[(''BloodPressureSystolic'', [''118'']), (''Steps'', [''n/a''])]" "''t''" "''u''"]
  unfolding lone_example_record by simp

section \<open>Ingestion and the stored record\<close>

text \<open>
  Claim C2, as amended. When the store holds under the date key a non-empty text that is
  not readable as JSON, an authorised ingest fails with the error of the decoder and
  leaves the store as it was; the prior record is not taken as empty. In every case the
  ingest either leaves the store unchanged or stores, under the date key, the whole
  document merged from the decoded prior record: there is no partial merge.
\<close>

theorem ingest_whole_or_nothing:
  "(check_auth API_KEY authorization
      \<and> redis (strftime_date (get_pacific_now now)) = Some text
      \<and> truthy text \<and> json_loads text = Inl e \<longrightarrow>
        do_POST API_KEY unquote now updated authorization form_data redis = (Inl e, redis))
   \<and> (snd (do_POST API_KEY unquote now updated authorization form_data redis) = redis
       \<or> (\<exists>health_data.
             load_existing (redis (strftime_date (get_pacific_now now))) = Inr (JDict health_data)
             \<and> do_POST API_KEY unquote now updated authorization form_data redis =
                 (Inr (Ingested (strftime_date (get_pacific_now now)) (map fst form_data)),
                  redis(strftime_date (get_pacific_now now) \<mapsto>
                    json_dumps (JDict (merge unquote health_data form_data updated))))))"
proof (intro conjI impI)
  assume "check_auth API_KEY authorization
      \<and> redis (strftime_date (get_pacific_now now)) = Some text
      \<and> truthy text \<and> json_loads text = Inl e"
  then show "do_POST API_KEY unquote now updated authorization form_data redis = (Inl e, redis)"
    by (simp add: do_POST_def load_existing_def Let_def)
next
  show "snd (do_POST API_KEY unquote now updated authorization form_data redis) = redis
       \<or> (\<exists>health_data.
             load_existing (redis (strftime_date (get_pacific_now now))) = Inr (JDict health_data)
             \<and> do_POST API_KEY unquote now updated authorization form_data redis =
                 (Inr (Ingested (strftime_date (get_pacific_now now)) (map fst form_data)),
                  redis(strftime_date (get_pacific_now now) \<mapsto>
                    json_dumps (JDict (merge unquote health_data form_data updated)))))"
  proof (cases "load_existing (redis (strftime_date (get_pacific_now now)))")
    case (Inl e)
    then show ?thesis by (simp add: do_POST_def Let_def)
  next
    case (Inr j)
    then show ?thesis by (cases j) (simp_all add: do_POST_def Let_def)
  qed
qed

lemma example_date: "strftime_date (get_pacific_now 1704078000) = 19722"
  by (simp add: strftime_date_def get_pacific_now_def)

theorem ingest_whole_or_nothing_witness:
  "do_POST [] id 1704078000 ''t'' None [(''Steps'', [''n/a''])]
     [19722 \<mapsto> Undecodable ''{steps: 7''] =
     (Inl JSONDecodeError, [19722 \<mapsto> Undecodable ''{steps: 7''])"
  using ingest_whole_or_nothing
    [of "[]" None "[19722 \<mapsto> Undecodable ''{steps: 7'']" 1704078000
        "Undecodable ''{steps: 7''" JSONDecodeError id "''t''" "[(''Steps'', [''n/a''])]"]
  by (simp add: example_date check_auth_def truthy_def json_loads_def)

text \<open>
  Claim C2 as stated fails: with an unreadable text under the date key the request ends
  with the error of the decoder, while with no prior record the same request succeeds.
\<close>

theorem unreadable_record_is_an_error:
  "fst (do_POST [] id 1704078000 ''t'' None [] [19722 \<mapsto> Undecodable ''not json''])
     = Inl JSONDecodeError
   \<and> snd (do_POST [] id 1704078000 ''t'' None [] [19722 \<mapsto> Undecodable ''not json''])
     = [19722 \<mapsto> Undecodable ''not json'']
   \<and> do_POST [] id 1704078000 ''t'' None [] Map.empty
     = (Inr (Ingested 19722 []),
        [19722 \<mapsto> Decodes (JDict [(''_updated'', JStr ''t'')])])"
  by (simp add: do_POST_def example_date check_auth_def load_existing_def truthy_def
        json_loads_def json_dumps_def merge_def)

section \<open>Retrieval and the date of the record\<close>

text \<open>
  Claim C4 at a failing input. The server runs on UTC (\<open>utcoffset = 0\<close>) and the instant
  is 2024-01-01T03:00:00Z, which is 2023-12-31T19:00:00 at the offset of -8 hours. An
  ingest stores its record under day 19722 (2023-12-31); a retrieval of one day at the
  same instant looks under day 19723 (2024-01-01) and returns no record, and a retrieval
  of two days returns the record under a date it counts as yesterday.
\<close>

theorem retrieval_reads_local_date:
  "snd (do_POST [] id 1704078000 ''2023-12-31T19:00:00-08:00'' None [] Map.empty)
     = [19722 \<mapsto> Decodes (JDict [(''_updated'', JStr ''2023-12-31T19:00:00-08:00'')])]
   \<and> strftime_date (get_pacific_now 1704078000) = 19722
   \<and> strftime_date (datetime_now 0 1704078000) = 19723
   \<and> do_GET [] 0 1704078000 None (Some 1)
        (snd (do_POST [] id 1704078000 ''2023-12-31T19:00:00-08:00'' None [] Map.empty))
      = Inr (Records [])
   \<and> do_GET [] (- 28800) 1704078000 None (Some 1)
        (snd (do_POST [] id 1704078000 ''2023-12-31T19:00:00-08:00'' None [] Map.empty))
      = Inr (Records [(19722, JDict [(''_updated'', JStr ''2023-12-31T19:00:00-08:00'')])])"
proof -
  have post: "do_POST [] id 1704078000 ''2023-12-31T19:00:00-08:00'' None [] Map.empty =
      (Inr (Ingested 19722 []),
       [19722 \<mapsto> Decodes (JDict [(''_updated'', JStr ''2023-12-31T19:00:00-08:00'')])])"
    by (simp add: do_POST_def example_date check_auth_def load_existing_def json_dumps_def
          merge_def)
  have local: "strftime_date (datetime_now 0 1704078000) = 19723"
    "strftime_date (datetime_now (- 28800) 1704078000) = 19722"
    by (simp_all add: strftime_date_def datetime_now_def)
  have one: "[0 ..< nat 1] = [0]" by simp
  show ?thesis
    unfolding post do_GET_def Let_def one
    by (simp add: local example_date check_auth_def truthy_def json_loads_def)
qed

section \<open>Blood glucose analysis\<close>







lemma fadd_not_negative:
  "not_negative a \<Longrightarrow> not_negative b \<Longrightarrow> not_negative (fadd a b)"
  by (cases a; cases b) (simp_all add: not_negative_def)

lemma foldl_fadd_not_negative:
  "not_negative a \<Longrightarrow> \<forall>x \<in> set xs. not_negative x \<Longrightarrow> not_negative (foldl fadd a xs)"
  by (induction xs arbitrary: a) (simp_all add: fadd_not_negative)

lemma fsquare_not_negative: "not_negative (fsquare x)"
  by (cases x) (simp_all add: not_negative_def)

lemma fdiv_count_not_negative: "not_negative x \<Longrightarrow> not_negative (fdiv_count x n)"
  by (cases x) (simp_all add: not_negative_def)

lemma variance_not_negative: "not_negative (variance nums)"
  unfolding variance_def Let_def fsum_def
proof (intro fdiv_count_not_negative foldl_fadd_not_negative)
  show "not_negative (Finite 0)" by (simp add: not_negative_def)
  show "\<forall>x \<in> set (map (\<lambda>x. fsquare (fsub x (fdiv_count (foldl fadd (Finite 0) nums) (length nums))))
                      nums). not_negative x"
    by (simp add: fsquare_not_negative)
qed









end
